theory Spec2Isabelle
  imports Main
begin

section \<open>Package azure of go-autorest: a shallow embedding\<close>

text \<open>
  The Go file \<^verbatim>\<open>autorest/azure/azure.go\<close> is embedded function by function.
  Pointers to responses are modelled by passing the response and the store of body streams
  through every call that may change them; Go's \<^verbatim>\<open>(value, error)\<close> results are pairs
  whose error component is an option (\<open>None\<close> is \<^verbatim>\<open>nil\<close>).
\<close>

subsection \<open>Header names\<close>

definition HeaderAsyncOperation :: string where
  "HeaderAsyncOperation = ''Azure-AsyncOperation''"

definition HeaderClientID :: string where
  "HeaderClientID = ''x-ms-client-request-id''"

definition HeaderReturnClientID :: string where
  "HeaderReturnClientID = ''x-ms-return-client-request-id''"

definition HeaderRequestID :: string where
  "HeaderRequestID = ''x-ms-request-id''"

subsection \<open>The standard library's \<^verbatim>\<open>http.Header\<close>\<close>

text \<open>
  \<^verbatim>\<open>http.Header\<close> is \<^verbatim>\<open>map[string][]string\<close>. \<^verbatim>\<open>Get\<close> and \<^verbatim>\<open>Set\<close> canonicalise the
  key they are given (\<^verbatim>\<open>textproto.CanonicalMIMEHeaderKey\<close>): when every byte is a token
  character, the first letter and each letter after a hyphen become upper case and all
  other letters lower case; a key with any other byte is returned as it is.
\<close>

type_synonym header = "string \<rightharpoonup> string list"

definition lower_letters :: string where
  "lower_letters = ''abcdefghijklmnopqrstuvwxyz''"

definition upper_letters :: string where
  "upper_letters = ''ABCDEFGHIJKLMNOPQRSTUVWXYZ''"

definition validHeaderFieldByte :: "char \<Rightarrow> bool" where
  "validHeaderFieldByte c =
     (c \<in> set lower_letters \<or> c \<in> set upper_letters \<or> c \<in> set ''0123456789''
      \<or> c \<in> set ''!#$%&*+-.^_`|~'' \<or> c = CHR 0x27)"

definition to_upper :: "char \<Rightarrow> char" where
  "to_upper c = (case map_of (zip lower_letters upper_letters) c of Some u \<Rightarrow> u | None \<Rightarrow> c)"

definition to_lower :: "char \<Rightarrow> char" where
  "to_lower c = (case map_of (zip upper_letters lower_letters) c of Some l \<Rightarrow> l | None \<Rightarrow> c)"

fun canonicalize :: "bool \<Rightarrow> string \<Rightarrow> string" where
  "canonicalize upper [] = []"
| "canonicalize upper (c # cs) =
     (if upper then to_upper c else to_lower c) # canonicalize (c = CHR ''-'') cs"

definition CanonicalHeaderKey :: "string \<Rightarrow> string" where
  "CanonicalHeaderKey s = (if list_all validHeaderFieldByte s then canonicalize True s else s)"

definition Header_Get :: "header \<Rightarrow> string \<Rightarrow> string" where
  "Header_Get h key =
     (case h (CanonicalHeaderKey key) of
        None \<Rightarrow> []
      | Some [] \<Rightarrow> []
      | Some (v # _) \<Rightarrow> v)"

definition Header_Set :: "header \<Rightarrow> string \<Rightarrow> string \<Rightarrow> header" where
  "Header_Set h key v = h(CanonicalHeaderKey key \<mapsto> [v])"

subsection \<open>Requests and responses\<close>

text \<open>
  The fields of \<^verbatim>\<open>http.Response\<close> and \<^verbatim>\<open>http.Request\<close> the package reads or writes.
  \<open>Body\<close> is the address of the body stream in the store; \<^verbatim>\<open>net/http\<close> gives every
  response of a client a non-nil body, so the address is not optional. The header of a
  request is the field \<open>ReqHeader\<close> (a nil header is the empty map), its URL the text the
  URL was parsed from, and \<open>Cancel\<close> names the cancellation channel, if any.
\<close>

record response =
  StatusCode :: int
  Header :: header
  Body :: nat

record request =
  Method :: string
  URL :: "string option"
  ReqHeader :: header
  Cancel :: "nat option"

definition StatusOK :: int where "StatusOK = 200"
definition StatusCreated :: int where "StatusCreated = 201"
definition StatusAccepted :: int where "StatusAccepted = 202"

definition zero_request :: request where
  "zero_request = \<lparr>Method = [], URL = None, ReqHeader = Map.empty, Cancel = None\<rparr>"

subsection \<open>Errors\<close>

text \<open>
  A Go \<^verbatim>\<open>error\<close> is one of: the result of \<^verbatim>\<open>fmt.Errorf\<close>, a \<^verbatim>\<open>*RequestError\<close> (taken to
  be a non-nil pointer), an \<^verbatim>\<open>autorest.DetailedError\<close> value, or an error of another
  package, known by its text. Formatting is left symbolic: a formatted string is the
  format together with its arguments, each tagged with the verb that prints it.
  The selectors of \<open>DetailedError\<close> carry the prefix \<open>Err\<close> where the Go field name is
  also a field of a request or response.
\<close>

datatype panic = NilPointerDereference

record ServiceError =
  Code :: string
  Message :: string

datatype error =
    Errorf string "fmt_arg list"
  | PtrRequestError RequestError
  | ValDetailedError DetailedError
  | OtherError string
and fmt_arg = Q string | S string | D int | V "error option"
and formatted = Plain string | Sprintf string "fmt_arg list"
and RequestError =
  RequestError_lit (DetailedError: DetailedError) (ServiceError: "ServiceError option")
    (RequestID: string)
and DetailedError =
  DetailedError_lit (Original: "error option") (PackageType: string) (ErrMethod: string)
    (ErrStatusCode: int) (ErrMessage: formatted)

definition zero_RequestError :: RequestError where
  "zero_RequestError = RequestError_lit (DetailedError_lit None [] [] 0 (Plain [])) None []"

definition Error :: "RequestError \<Rightarrow> panic + formatted" where
  "Error e =
     (case ServiceError e of
        None \<Rightarrow> Inl NilPointerDereference
      | Some se \<Rightarrow>
          Inr (Sprintf ''azure: Service returned an error. Code=%q Message=%q Status=%d''
                 [Q (Code se), Q (Message se), D (ErrStatusCode (DetailedError e))]))"


text \<open>
  \<^verbatim>\<open>autorest.UndefinedStatusCode\<close> is a constant of package autorest; it is the first
  parameter.
\<close>

definition NewErrorWithError ::
  "int \<Rightarrow> error option \<Rightarrow> string \<Rightarrow> string \<Rightarrow> response option \<Rightarrow> string \<Rightarrow> fmt_arg list
    \<Rightarrow> RequestError" where
  "NewErrorWithError undefinedStatusCode original packageType method resp message args =
     (case original of
        Some (PtrRequestError v) \<Rightarrow> v
      | _ \<Rightarrow>
          RequestError_lit
            (DetailedError_lit original packageType method
               (case resp of None \<Rightarrow> undefinedStatusCode | Some rs \<Rightarrow> StatusCode rs)
               (Sprintf message args))
            None [])"

subsection \<open>Request decorators\<close>

text \<open>
  A preparer returns the request and an error; a decorator wraps a preparer.
\<close>

type_synonym preparer = "request \<Rightarrow> request \<times> error option"

text \<open>
  Modelled from the spec: \<^verbatim>\<open>autorest.CreatePreparer\<close> and \<^verbatim>\<open>autorest.Prepare\<close> are not among the
  sources. They are the "decorator-chaining mechanism for composing request transforms":
  the decorators wrap, in the order given, a base preparer that returns the request as
  it is.
\<close>

definition CreatePreparer :: "(preparer \<Rightarrow> preparer) list \<Rightarrow> preparer" where
  "CreatePreparer decorators = foldl (\<lambda>p decorate. decorate p) (\<lambda>r. (r, None)) decorators"

definition Prepare :: "request \<Rightarrow> (preparer \<Rightarrow> preparer) list \<Rightarrow> request \<times> error option" where
  "Prepare r decorators = CreatePreparer decorators r"

text \<open>
  Modelled from the spec: \<^verbatim>\<open>autorest.WithHeader\<close> is not among the sources. Section 4.1: "produce
  a request-mutating function that sets a header equal to that string", which "must not
  alter any other header". As a decorator it runs the preparer it wraps first and sets
  the header when that returned no error.
\<close>

definition WithHeader :: "string \<Rightarrow> string \<Rightarrow> preparer \<Rightarrow> preparer" where
  "WithHeader header v p r =
     (case p r of
        (r1, Some err) \<Rightarrow> (r1, Some err)
      | (r1, None) \<Rightarrow>
          (r1\<lparr>ReqHeader := Header_Set (ReqHeader r1) (CanonicalHeaderKey header) v\<rparr>, None))"

definition FormatBool :: "bool \<Rightarrow> string" where
  "FormatBool b = (if b then ''true'' else ''false'')"

definition WithClientID :: "string \<Rightarrow> preparer \<Rightarrow> preparer" where
  "WithClientID uuid = WithHeader HeaderClientID uuid"

definition WithReturnClientID :: "bool \<Rightarrow> preparer \<Rightarrow> preparer" where
  "WithReturnClientID b = WithHeader HeaderReturnClientID (FormatBool b)"

definition WithReturningClientID :: "string \<Rightarrow> preparer \<Rightarrow> preparer" where
  "WithReturningClientID uuid p r =
     (case p r of
        (r1, Some err) \<Rightarrow> (r1, Some err)
      | (r1, None) \<Rightarrow> CreatePreparer [WithClientID uuid, WithReturnClientID True] r1)"

text \<open>
  Modelled from the spec: \<^verbatim>\<open>autorest.ExtractHeaderValue\<close> is not among the sources. Section 4.1:
  extraction operations "read the same headers from a response and return the string
  value or empty string if absent".
\<close>

definition ExtractHeaderValue :: "string \<Rightarrow> response \<Rightarrow> string" where
  "ExtractHeaderValue header resp =
     (case Header resp (CanonicalHeaderKey header) of
        None \<Rightarrow> []
      | Some [] \<Rightarrow> []
      | Some (v # _) \<Rightarrow> v)"

definition ExtractClientID :: "response \<Rightarrow> string" where
  "ExtractClientID resp = ExtractHeaderValue HeaderClientID resp"

definition ExtractRequestID :: "response \<Rightarrow> string" where
  "ExtractRequestID resp = ExtractHeaderValue HeaderRequestID resp"

subsection \<open>Detecting a long-running operation\<close>

definition GetAsyncOperation :: "response \<Rightarrow> string" where
  "GetAsyncOperation resp = Header_Get (Header resp) (CanonicalHeaderKey HeaderAsyncOperation)"

text \<open>
  \<^verbatim>\<open>autorest.ResponseRequiresPolling\<close> belongs to package autorest; the detector takes it
  as the parameter \<open>requiresPolling\<close>, a predicate over the response and the status codes
  passed.
\<close>

definition ResponseIsLongRunning :: "(response \<Rightarrow> int list \<Rightarrow> bool) \<Rightarrow> response \<Rightarrow> bool" where
  "ResponseIsLongRunning requiresPolling resp =
     (requiresPolling resp [StatusCreated] \<and> GetAsyncOperation resp \<noteq> [])"

text \<open>
  Modelled from the spec: \<^verbatim>\<open>autorest.ResponseRequiresPolling\<close> is not among the sources.
  Sections 4.2, 6 and 9 describe it as "a supplied boolean predicate over (response,
  accepted-status)" that signals polling for an "explicit accepted status plus absence
  of a terminal marker". The accepted statuses are the codes passed, and 202 stands in
  only when none is passed; the terminal marker is status 200.
\<close>

definition ResponseRequiresPolling :: "response \<Rightarrow> int list \<Rightarrow> bool" where
  "ResponseRequiresPolling resp codes =
     (StatusCode resp \<noteq> StatusOK \<and>
      StatusCode resp \<in> set (if codes = [] then [StatusAccepted] else codes))"

subsection \<open>Body streams\<close>

text \<open>
  A body is an \<^verbatim>\<open>io.ReadCloser\<close>: either the body of a connection, with the bytes not yet
  read and a flag set by \<^verbatim>\<open>Close\<close>, or an in-memory reader wrapped by \<^verbatim>\<open>ioutil.NopCloser\<close>,
  whose \<^verbatim>\<open>Close\<close> does nothing. Closing a connection discards what was not read, and a
  read from a closed connection fails. The store lists the streams; an address is an
  index into it, and a new stream is put at the end. An address beyond the store does
  not arise in Go; it reads as a closed connection.
\<close>

datatype stream = Conn (unread: string) (closed: bool) | NopCloser (unread: string)

type_synonym store = "stream list"

definition stream_at :: "store \<Rightarrow> nat \<Rightarrow> stream" where
  "stream_at h a = (if a < length h then h ! a else Conn [] True)"

fun readable :: "stream \<Rightarrow> string" where
  "readable (Conn bs c) = (if c then [] else bs)"
| "readable (NopCloser bs) = bs"

fun read_error :: "stream \<Rightarrow> error option" where
  "read_error (Conn bs c) =
     (if c then Some (OtherError ''http: read on closed response body'') else None)"
| "read_error (NopCloser bs) = None"

fun consume :: "nat \<Rightarrow> stream \<Rightarrow> stream" where
  "consume n (Conn bs c) = Conn (drop n bs) c"
| "consume n (NopCloser bs) = NopCloser (drop n bs)"

fun Close_stream :: "stream \<Rightarrow> stream" where
  "Close_stream (Conn bs c) = Conn [] True"
| "Close_stream (NopCloser bs) = NopCloser bs"

definition Close :: "nat \<Rightarrow> store \<Rightarrow> store" where
  "Close a h = (if a < length h then h[a := Close_stream (h ! a)] else h)"

subsection \<open>The error-translating responder\<close>

text \<open>
  A responder receives the pointer to the response: it may change the fields of the
  response and the streams of the store, and returns an error.
\<close>

type_synonym responder = "response \<Rightarrow> store \<Rightarrow> error option \<times> response \<times> store"

text \<open>
  Modelled from the spec: \<^verbatim>\<open>autorest.ResponseHasStatusCode\<close> is not among the sources. Section 6
  lists it as the generic predicate "does response status match one of these codes".
\<close>

definition ResponseHasStatusCode :: "response \<Rightarrow> int list \<Rightarrow> bool" where
  "ResponseHasStatusCode resp codes = (StatusCode resp \<in> set codes)"

text \<open>
  Modelled from the spec: \<^verbatim>\<open>autorest.CopyAndDecode\<close> is not among the sources. Section 6
  lists it as "a generic structured-text decode-and-copy utility": the decoder reads
  from the body and every byte it reads is copied to a buffer, which is returned with
  the decoder's verdict. The JSON decoder of the standard library is the parameter
  \<open>decode\<close>: given the bytes the stream has to give, it answers how many of them it reads
  (it reads in blocks and stops once it has a value or an error, so it need not reach the
  end of the body) and either a decoding error or the value decoded into a zero
  \<open>RequestError\<close>. A failed read is the decoding error, and nothing is copied then.
\<close>

definition CopyAndDecode ::
  "(string \<Rightarrow> nat \<times> (error + RequestError)) \<Rightarrow> nat \<Rightarrow> store
    \<Rightarrow> string \<times> (error + RequestError) \<times> store" where
  "CopyAndDecode decode a h =
     (let s = stream_at h a in
      case read_error s of
        Some e \<Rightarrow> ([], Inl e, h)
      | None \<Rightarrow>
          (case decode (readable s) of
             (n, decoded) \<Rightarrow> (take n (readable s), decoded, h[a := consume n s])))"

definition set_StatusCode :: "int \<Rightarrow> DetailedError \<Rightarrow> DetailedError" where
  "set_StatusCode c d =
     DetailedError_lit (Original d) (PackageType d) (ErrMethod d) c (ErrMessage d)"

text \<open>
  \<^verbatim>\<open>defer resp.Body.Close()\<close> fixes its receiver when the \<^verbatim>\<open>defer\<close> statement runs, so
  the call made on return closes the stream the response had then (\<open>orig\<close>), not the
  in-memory reader that has replaced it by then.
\<close>

definition WithErrorUnlessStatusCode ::
  "(string \<Rightarrow> nat \<times> (error + RequestError)) \<Rightarrow> int list \<Rightarrow> responder \<Rightarrow> responder" where
  "WithErrorUnlessStatusCode decode codes r resp h =
     (case r resp h of
        (err, resp1, h1) \<Rightarrow>
          if err = None \<and> \<not> ResponseHasStatusCode resp1 codes then
            (let orig = Body resp1 in
             case CopyAndDecode decode orig h1 of
               (b, decoded, h2) \<Rightarrow>
                 (let resp2 = resp1\<lparr>Body := length h2\<rparr>;
                      h3 = h2 @ [NopCloser b];
                      unparsed =
                        Errorf ''autorest/azure: error response cannot be parsed: %q error: %v''
                          [Q b, V err]
                  in case decoded of
                       Inl decodeErr \<Rightarrow> (Some unparsed, resp2, Close orig h3)
                     | Inr e \<Rightarrow>
                         (case ServiceError e of
                            None \<Rightarrow> (Some unparsed, resp2, Close orig h3)
                          | Some se \<Rightarrow>
                              (Some (PtrRequestError
                                 (RequestError_lit
                                    (set_StatusCode (StatusCode resp2) (DetailedError e))
                                    (ServiceError e) (ExtractRequestID resp2))),
                               resp2, Close orig h3))))
          else (err, resp1, h1))"

subsection \<open>The poll request\<close>

text \<open>
  Modelled from the spec: \<^verbatim>\<open>autorest.NewErrorWithResponse\<close> and \<^verbatim>\<open>autorest.NewErrorWithError\<close>
  are not among the sources. They build the "generic detailed-error (original cause,
  package/method identifiers, HTTP status code, formatted message)" of section 3, as
  \<open>NewErrorWithError\<close> of this package does.
\<close>

definition autorest_NewErrorWithError ::
  "int \<Rightarrow> error option \<Rightarrow> string \<Rightarrow> string \<Rightarrow> response option \<Rightarrow> string \<Rightarrow> fmt_arg list
    \<Rightarrow> DetailedError" where
  "autorest_NewErrorWithError undefinedStatusCode original packageType method resp message args =
     DetailedError_lit original packageType method
       (case resp of None \<Rightarrow> undefinedStatusCode | Some rs \<Rightarrow> StatusCode rs)
       (Sprintf message args)"

definition NewErrorWithResponse ::
  "int \<Rightarrow> string \<Rightarrow> string \<Rightarrow> response option \<Rightarrow> string \<Rightarrow> fmt_arg list \<Rightarrow> DetailedError" where
  "NewErrorWithResponse undefinedStatusCode packageType method resp message args =
     autorest_NewErrorWithError undefinedStatusCode None packageType method resp message args"

text \<open>
  Modelled from the spec: \<^verbatim>\<open>autorest.AsGet\<close> and \<^verbatim>\<open>autorest.WithBaseURL\<close> are not among the
  sources. Section 4.3: the helper "builds a GET request targeted at that location", and
  the construction may fail. \<open>url_error\<close> is the standard library's verdict on the text of
  the URL.
\<close>

definition AsGet :: "preparer \<Rightarrow> preparer" where
  "AsGet p r =
     (case p r of
        (r1, Some err) \<Rightarrow> (r1, Some err)
      | (r1, None) \<Rightarrow> (r1\<lparr>Method := ''GET''\<rparr>, None))"

definition WithBaseURL :: "(string \<Rightarrow> error option) \<Rightarrow> string \<Rightarrow> preparer \<Rightarrow> preparer" where
  "WithBaseURL url_error baseURL p r =
     (case p r of
        (r1, Some err) \<Rightarrow> (r1, Some err)
      | (r1, None) \<Rightarrow>
          (case url_error baseURL of
             Some err \<Rightarrow> (r1, Some err)
           | None \<Rightarrow> (r1\<lparr>URL := Some baseURL\<rparr>, None)))"

text \<open>
  Modelled from the spec: \<^verbatim>\<open>autorest.Respond\<close>, \<^verbatim>\<open>autorest.ByClosing\<close> and the client's
  \<^verbatim>\<open>ByInspecting\<close> are not among the sources. Section 4.3: the helper "drains and closes the
  original response body via the base response-inspection pipeline". The inspector of
  the client looks at the response and may read its body; the decorators wrap, in the
  order given, a base responder that does nothing.
\<close>

record client =
  ResponseInspector :: "response \<Rightarrow> store \<Rightarrow> error option \<times> store"

definition ByInspecting :: "client \<Rightarrow> responder \<Rightarrow> responder" where
  "ByInspecting c r resp h =
     (case r resp h of
        (Some err, resp1, h1) \<Rightarrow> (Some err, resp1, h1)
      | (None, resp1, h1) \<Rightarrow>
          (case ResponseInspector c resp1 h1 of (err, h2) \<Rightarrow> (err, resp1, h2)))"

definition ByClosing :: "responder \<Rightarrow> responder" where
  "ByClosing r resp h =
     (case r resp h of (err, resp1, h1) \<Rightarrow> (err, resp1, Close (Body resp1) h1))"

definition Respond :: "response \<Rightarrow> (responder \<Rightarrow> responder) list \<Rightarrow> store \<Rightarrow> error option \<times> response \<times> store" where
  "Respond resp decorators h =
     foldl (\<lambda>r decorate. decorate r) (\<lambda>resp h. (None, resp, h)) decorators resp h"

text \<open>
  The result is the request (\<open>None\<close> is nil), the error, and the store; the fields of the
  response are only read.
\<close>

definition NewAsyncPollingRequest ::
  "(string \<Rightarrow> error option) \<Rightarrow> int \<Rightarrow> response \<Rightarrow> client \<Rightarrow> store
    \<Rightarrow> (request option \<times> error option) \<times> store" where
  "NewAsyncPollingRequest url_error undefinedStatusCode resp c h =
     (let location = GetAsyncOperation resp in
      if location = [] then
        ((None,
          Some (ValDetailedError
            (NewErrorWithResponse undefinedStatusCode ''azure'' ''NewAsyncPollingRequest''
               (Some resp)
               ''Azure-AsyncOperation header missing from response that requires polling''
               []))),
         h)
      else
        (case Prepare zero_request [AsGet, WithBaseURL url_error location] of
           (req, Some err) \<Rightarrow>
             ((None,
               Some (ValDetailedError
                 (autorest_NewErrorWithError undefinedStatusCode (Some err) ''azure''
                    ''NewAsyncPollingRequest'' None ''Failure creating poll request to %s''
                    [S location]))),
              h)
         | (req, None) \<Rightarrow>
             (case Respond resp [ByInspecting c, ByClosing] h of
                (_, _, h1) \<Rightarrow> ((Some req, None), h1))))"

subsection \<open>The polling loop\<close>

text \<open>
  A sender and the delay act on a world \<open>'w\<close> (the network, the clock, the cancellation
  channels). \<^verbatim>\<open>autorest.GetPollingDelay\<close> and \<^verbatim>\<open>autorest.DelayForBackoff\<close> belong to package
  autorest and are the parameters \<open>getPollingDelay\<close> and \<open>delayForBackoff\<close>; a duration is
  an integer. A sender returns a response (\<open>None\<close> is nil) and an error; a nil response
  with a nil error makes the loop condition dereference nil. The loop need not end, so
  its result is optional: \<open>None\<close> is a loop that polls forever.
\<close>

type_synonym 'w sender = "request \<Rightarrow> 'w \<Rightarrow> (response option \<times> error option) \<times> 'w"

type_synonym 'w delay = "int \<Rightarrow> nat \<Rightarrow> nat option \<Rightarrow> 'w \<Rightarrow> error option \<times> 'w"

partial_function (option) polling ::
  "(response \<Rightarrow> int list \<Rightarrow> bool) \<Rightarrow> (response \<Rightarrow> int \<Rightarrow> int) \<Rightarrow> 'w delay \<Rightarrow> int \<Rightarrow> 'w sender
    \<Rightarrow> request \<Rightarrow> response option \<Rightarrow> error option \<Rightarrow> 'w
    \<Rightarrow> ((panic + response option \<times> error option) \<times> 'w) option" where
  "polling requiresPolling getPollingDelay delayForBackoff defaultDelay s r resp err w =
     (case err of
        Some e \<Rightarrow> Some (Inr (resp, err), w)
      | None \<Rightarrow>
          (case resp of
             None \<Rightarrow> Some (Inl NilPointerDereference, w)
           | Some rsp \<Rightarrow>
               if ResponseIsLongRunning requiresPolling rsp then
                 (case delayForBackoff (getPollingDelay rsp defaultDelay) 1 (Cancel r) w of
                    (Some e, w1) \<Rightarrow>
                      polling requiresPolling getPollingDelay delayForBackoff defaultDelay s r
                        resp (Some e) w1
                  | (None, w1) \<Rightarrow>
                      (case s r w1 of
                         ((resp2, err2), w2) \<Rightarrow>
                           polling requiresPolling getPollingDelay delayForBackoff defaultDelay
                             s r resp2 err2 w2))
               else Some (Inr (resp, err), w)))"

definition WithAsyncPolling ::
  "(response \<Rightarrow> int list \<Rightarrow> bool) \<Rightarrow> (response \<Rightarrow> int \<Rightarrow> int) \<Rightarrow> 'w delay \<Rightarrow> int \<Rightarrow> 'w sender
    \<Rightarrow> request \<Rightarrow> 'w \<Rightarrow> ((panic + response option \<times> error option) \<times> 'w) option" where
  "WithAsyncPolling requiresPolling getPollingDelay delayForBackoff defaultDelay s r w =
     (case s r w of
        ((resp, err), w1) \<Rightarrow>
          polling requiresPolling getPollingDelay delayForBackoff defaultDelay s r resp err w1)"

text \<open>
  A base sender with a script: it yields the outcomes of \<open>pending\<close> in order, a transport
  error once they are used up, and records every request it is given in \<open>sent\<close>.
\<close>

record world =
  pending :: "(response option \<times> error option) list"
  sent :: "request list"

definition scripted :: "world sender" where
  "scripted r w =
     (case pending w of
        [] \<Rightarrow> ((None, Some (OtherError ''no response left'')), w\<lparr>sent := sent w @ [r]\<rparr>)
      | x # xs \<Rightarrow> (x, w\<lparr>pending := xs, sent := sent w @ [r]\<rparr>))"

definition undisturbed :: "'w delay" where
  "undisturbed d attempt cancel w = (None, w)"

text \<open>Two sample responses: an operation in progress and a finished one.\<close>

definition in_progress :: response where
  "in_progress =
     \<lparr>StatusCode = 201, Header = [''Azure-Asyncoperation'' \<mapsto> [''https://poll'']], Body = 0\<rparr>"

definition terminal :: response where
  "terminal = \<lparr>StatusCode = 200, Header = Map.empty, Body = 1\<rparr>"

text \<open>
  For the examples: the base responder, which does nothing and returns nil; an inner
  responder that fails with a \<^verbatim>\<open>*RequestError\<close> of its own; a decoder that reads one block
  of at most 512 bytes and knows one error body and the empty object; a body of 520
  bytes that is not JSON; and a response with status 409 that carries a request ID.
\<close>

definition base_responder :: responder where
  "base_responder resp h = (None, resp, h)"

definition failing_responder :: responder where
  "failing_responder resp h = (Some (PtrRequestError zero_RequestError), resp, h)"

definition sample_body :: string where
  \<open>sample_body = ''{"error":{"code":"Conflict","message":"busy"}}''\<close>

definition sample_error :: RequestError where
  "sample_error =
     RequestError_lit (DetailedError_lit None [] [] 0 (Plain []))
       (Some \<lparr>Code = ''Conflict'', Message = ''busy''\<rparr>) []"

definition sample_decode :: "string \<Rightarrow> nat \<times> (error + RequestError)" where
  "sample_decode bytes =
     (let block = take 512 bytes in
      (length block,
       if block = sample_body then Inr sample_error
       else if block = ''{}'' then Inr zero_RequestError
       else Inl (OtherError ''invalid character'')))"


definition conflict :: response where
  "conflict = \<lparr>StatusCode = 409, Header = [''X-Ms-Request-Id'' \<mapsto> [''req-1'']], Body = 0\<rparr>"

section \<open>Properties\<close>

subsection \<open>Long-running detection\<close>

lemma canonical_HeaderAsyncOperation:
  "CanonicalHeaderKey HeaderAsyncOperation = ''Azure-Asyncoperation''"
  by code_simp

lemma canonical_twice_HeaderAsyncOperation:
  "CanonicalHeaderKey ''Azure-Asyncoperation'' = ''Azure-Asyncoperation''"
  by code_simp

lemma GetAsyncOperation_eq:
  "GetAsyncOperation resp =
     (case Header resp ''Azure-Asyncoperation'' of
        None \<Rightarrow> []
      | Some [] \<Rightarrow> []
      | Some (v # _) \<Rightarrow> v)"
  by (simp add: GetAsyncOperation_def Header_Get_def canonical_HeaderAsyncOperation
      canonical_twice_HeaderAsyncOperation)

lemma in_progress_long_running: "ResponseIsLongRunning ResponseRequiresPolling in_progress"
  by (simp add: in_progress_def ResponseIsLongRunning_def GetAsyncOperation_eq
      ResponseRequiresPolling_def StatusOK_def StatusCreated_def)

lemma terminal_not_long_running: "\<not> ResponseIsLongRunning ResponseRequiresPolling terminal"
  by (simp add: terminal_def ResponseIsLongRunning_def GetAsyncOperation_eq)

text \<open>
  Claim C1, as amended. \<open>ResponseIsLongRunning\<close> passes 201 (Created) to the polling
  predicate as the one accepted status. A response with status 201 whose
  \<^verbatim>\<open>Azure-AsyncOperation\<close> header is present with a non-empty value is long-running. The
  header is looked up under its canonical key.
\<close>

theorem ResponseIsLongRunning_created:
  assumes "StatusCode resp = 201"
    and "Header resp ''Azure-Asyncoperation'' = Some (v # vs)"
    and "v \<noteq> []"
  shows "ResponseIsLongRunning ResponseRequiresPolling resp"
  using assms
  by (simp add: ResponseIsLongRunning_def GetAsyncOperation_eq ResponseRequiresPolling_def
      StatusOK_def StatusCreated_def)

theorem ResponseIsLongRunning_created_witness:
  "ResponseIsLongRunning ResponseRequiresPolling
     \<lparr>StatusCode = 201, Header = [''Azure-Asyncoperation'' \<mapsto> [''https://poll'']], Body = 0\<rparr>"
  using ResponseIsLongRunning_created
    [of "\<lparr>StatusCode = 201, Header = [''Azure-Asyncoperation'' \<mapsto> [''https://poll'']], Body = 0\<rparr>"
        "''https://poll''" "[]"]
  by simp

text \<open>
  With status 202 (Accepted) the statement fails: 202 is not among the codes passed, so
  the same header does not make the response long-running.
\<close>

theorem ResponseIsLongRunning_accepted_counterexample:
  "StatusCode
     \<lparr>StatusCode = 202, Header = [''Azure-Asyncoperation'' \<mapsto> [''https://poll'']], Body = 0\<rparr>
     = 202 \<and>
   Header
     \<lparr>StatusCode = 202, Header = [''Azure-Asyncoperation'' \<mapsto> [''https://poll'']], Body = 0\<rparr>
     ''Azure-Asyncoperation'' = Some [''https://poll''] \<and>
   \<not> ResponseIsLongRunning ResponseRequiresPolling
     \<lparr>StatusCode = 202, Header = [''Azure-Asyncoperation'' \<mapsto> [''https://poll'']], Body = 0\<rparr>"
  by (simp add: ResponseIsLongRunning_def ResponseRequiresPolling_def StatusCreated_def)

text \<open>
  Claim C7. \<open>ResponseIsLongRunning\<close> holds exactly when the generic polling predicate holds
  for the response (with the code 201 passed) and the \<^verbatim>\<open>Azure-AsyncOperation\<close> header is
  present with a non-empty value; a response without that header is never long-running,
  whatever the predicate says of its status code.
\<close>

theorem ResponseIsLongRunning_iff:
  "(ResponseIsLongRunning requiresPolling resp \<longleftrightarrow>
      requiresPolling resp [StatusCreated] \<and>
      (\<exists>v vs. Header resp ''Azure-Asyncoperation'' = Some (v # vs) \<and> v \<noteq> [])) \<and>
   (Header resp ''Azure-Asyncoperation'' = None \<longrightarrow>
      \<not> ResponseIsLongRunning requiresPolling resp)"
  by (auto simp: ResponseIsLongRunning_def GetAsyncOperation_eq split: option.splits list.splits)

theorem ResponseIsLongRunning_iff_witness:
  "Header \<lparr>StatusCode = 202, Header = Map.empty, Body = 0\<rparr> ''Azure-Asyncoperation'' = None \<and>
   \<not> ResponseIsLongRunning (\<lambda>resp codes. True) \<lparr>StatusCode = 202, Header = Map.empty, Body = 0\<rparr>"
  using ResponseIsLongRunning_iff
    [of "\<lambda>resp codes. True" "\<lparr>StatusCode = 202, Header = Map.empty, Body = 0\<rparr>"]
  by simp

subsection \<open>The polling loop\<close>

lemma polling_error:
  "polling rp gpd dfb dd s r resp (Some e) w = Some (Inr (resp, Some e), w)"
  by (subst polling.simps) simp

lemma polling_nil:
  "polling rp gpd dfb dd s r None None w = Some (Inl NilPointerDereference, w)"
  by (subst polling.simps) simp

lemma polling_done:
  "\<not> ResponseIsLongRunning rp rsp \<Longrightarrow>
   polling rp gpd dfb dd s r (Some rsp) None w = Some (Inr (Some rsp, None), w)"
  by (subst polling.simps) simp

lemma polling_again:
  "ResponseIsLongRunning rp rsp \<Longrightarrow> dfb (gpd rsp dd) 1 (Cancel r) w = (None, w1) \<Longrightarrow>
   s r w1 = ((resp2, err2), w2) \<Longrightarrow>
   polling rp gpd dfb dd s r (Some rsp) None w = polling rp gpd dfb dd s r resp2 err2 w2"
  by (subst polling.simps) simp

lemma polling_cancelled:
  "ResponseIsLongRunning rp rsp \<Longrightarrow> dfb (gpd rsp dd) 1 (Cancel r) w = (Some e, w1) \<Longrightarrow>
   polling rp gpd dfb dd s r (Some rsp) None w = Some (Inr (Some rsp, Some e), w1)"
  by (subst polling.simps) (simp add: polling_error)

text \<open>
  Claim C3. Let the base sender yield, without transport error, two responses that are
  long-running and then one that is not, and let no delay be cancelled (every delay
  returns nil). Then the sender built by \<open>WithAsyncPolling\<close> returns: its result is the
  third response with a nil error, and the base sender has received exactly three
  requests, each the request passed in.
\<close>

theorem WithAsyncPolling_three_requests:
  assumes lr1: "ResponseIsLongRunning rp r1"
    and lr2: "ResponseIsLongRunning rp r2"
    and lr3: "\<not> ResponseIsLongRunning rp r3"
    and script: "pending w = (Some r1, None) # (Some r2, None) # (Some r3, None) # rest"
    and quiet: "\<And>d w'. dfb d 1 (Cancel r) w' = (None, w')"
  shows "WithAsyncPolling rp gpd dfb dd scripted r w =
           Some (Inr (Some r3, None), w\<lparr>pending := rest, sent := sent w @ [r, r, r]\<rparr>)"
proof -
  let ?w1 = "w\<lparr>pending := (Some r2, None) # (Some r3, None) # rest, sent := sent w @ [r]\<rparr>"
  let ?w2 = "w\<lparr>pending := (Some r3, None) # rest, sent := sent w @ [r, r]\<rparr>"
  let ?w3 = "w\<lparr>pending := rest, sent := sent w @ [r, r, r]\<rparr>"
  have s1: "scripted r w = ((Some r1, None), ?w1)"
    using script by (simp add: scripted_def)
  have s2: "scripted r ?w1 = ((Some r2, None), ?w2)"
    by (simp add: scripted_def)
  have s3: "scripted r ?w2 = ((Some r3, None), ?w3)"
    by (simp add: scripted_def)
  have "WithAsyncPolling rp gpd dfb dd scripted r w
          = polling rp gpd dfb dd scripted r (Some r1) None ?w1"
    by (simp add: WithAsyncPolling_def s1)
  also have "\<dots> = polling rp gpd dfb dd scripted r (Some r2) None ?w2"
    using lr1 quiet s2 by (rule polling_again)
  also have "\<dots> = polling rp gpd dfb dd scripted r (Some r3) None ?w3"
    using lr2 quiet s3 by (rule polling_again)
  also have "\<dots> = Some (Inr (Some r3, None), ?w3)"
    using lr3 by (rule polling_done)
  finally show ?thesis .
qed

theorem WithAsyncPolling_three_requests_witness:
  "ResponseIsLongRunning ResponseRequiresPolling in_progress \<and>
   \<not> ResponseIsLongRunning ResponseRequiresPolling terminal \<and>
   WithAsyncPolling ResponseRequiresPolling (\<lambda>resp d. d) undisturbed 60 scripted zero_request
     \<lparr>pending = [(Some in_progress, None), (Some in_progress, None), (Some terminal, None)],
      sent = []\<rparr> =
   Some (Inr (Some terminal, None),
         \<lparr>pending = [], sent = [zero_request, zero_request, zero_request]\<rparr>)"
  using WithAsyncPolling_three_requests
    [of ResponseRequiresPolling in_progress in_progress terminal
        "\<lparr>pending = [(Some in_progress, None), (Some in_progress, None), (Some terminal, None)],
          sent = []\<rparr>"
        "[]" undisturbed zero_request "\<lambda>resp d. d" 60]
  by (simp add: in_progress_long_running terminal_not_long_running undisturbed_def)

subsection \<open>The error-translating responder\<close>

lemma canonical_HeaderRequestID: "CanonicalHeaderKey HeaderRequestID = ''X-Ms-Request-Id''"
  by code_simp

lemma canonical_twice_HeaderRequestID:
  "CanonicalHeaderKey ''X-Ms-Request-Id'' = ''X-Ms-Request-Id''"
  by code_simp

lemma ExtractRequestID_eq: "ExtractRequestID resp = Header_Get (Header resp) HeaderRequestID"
  by (simp add: ExtractRequestID_def ExtractHeaderValue_def Header_Get_def)

text \<open>The two paths of the responder: it translates, or it returns what the inner one did.\<close>

lemma WithErrorUnlessStatusCode_translate:
  assumes "r resp h = (None, resp1, h1)" and "StatusCode resp1 \<notin> set codes"
    and "CopyAndDecode decode (Body resp1) h1 = (b, decoded, h2)"
  shows "WithErrorUnlessStatusCode decode codes r resp h =
   ((case decoded of
       Inl decodeErr \<Rightarrow>
         Some (Errorf ''autorest/azure: error response cannot be parsed: %q error: %v''
                 [Q b, V None])
     | Inr e \<Rightarrow>
         (case ServiceError e of
            None \<Rightarrow>
              Some (Errorf ''autorest/azure: error response cannot be parsed: %q error: %v''
                      [Q b, V None])
          | Some se \<Rightarrow>
              Some (PtrRequestError
                (RequestError_lit (set_StatusCode (StatusCode resp1) (DetailedError e))
                   (ServiceError e) (ExtractRequestID resp1))))),
    resp1\<lparr>Body := length h2\<rparr>, Close (Body resp1) (h2 @ [NopCloser b]))"
  using assms
  by (simp add: WithErrorUnlessStatusCode_def ResponseHasStatusCode_def ExtractRequestID_def
      ExtractHeaderValue_def split: sum.splits option.splits)

lemma WithErrorUnlessStatusCode_skip:
  assumes "r resp h = (err, resp1, h1)" and "err \<noteq> None \<or> StatusCode resp1 \<in> set codes"
  shows "WithErrorUnlessStatusCode decode codes r resp h = (err, resp1, h1)"
  using assms by (auto simp: WithErrorUnlessStatusCode_def ResponseHasStatusCode_def)

lemma WithErrorUnlessStatusCode_error_cases:
  assumes "WithErrorUnlessStatusCode decode codes r resp h = (Some (PtrRequestError e), resp', h')"
  shows "fst (r resp h) = Some (PtrRequestError e) \<or> ServiceError e \<noteq> None"
proof (cases "r resp h")
  case (fields err resp1 h1)
  show ?thesis
  proof (cases "err = None \<and> StatusCode resp1 \<notin> set codes")
    case False
    then have "WithErrorUnlessStatusCode decode codes r resp h = (err, resp1, h1)"
      using fields by (auto simp: WithErrorUnlessStatusCode_skip)
    then show ?thesis using assms fields by simp
  next
    case True
    then show ?thesis
      using assms fields
      by (auto simp: WithErrorUnlessStatusCode_def ResponseHasStatusCode_def Let_def
          split: prod.splits sum.splits option.splits)
  qed
qed

lemma length_sample_body: "length sample_body = 46"
  by (simp add: sample_body_def)

lemma sample_decode_sample_body: "sample_decode sample_body = (46, Inr sample_error)"
  by (simp add: sample_decode_def length_sample_body)

lemma sample_CopyAndDecode:
  "CopyAndDecode sample_decode 0 [Conn sample_body False]
     = (sample_body, Inr sample_error, [Conn [] False])"
  by (simp add: CopyAndDecode_def stream_at_def sample_decode_sample_body length_sample_body)






text \<open>
  Claim C2. Let the inner responder return no error and leave a response whose status
  code is not among the codes passed, and let the body decode into a \<open>RequestError\<close> with a
  service error. Then the responder returns a \<^verbatim>\<open>*RequestError\<close> with that service error
  (its code and message), whose request ID is the value of the response's
  \<^verbatim>\<open>x-ms-request-id\<close> header and whose status code is the status code of the response.
\<close>

theorem WithErrorUnlessStatusCode_service_error:
  assumes inner: "r resp h = (None, resp1, h1)"
    and outside: "StatusCode resp1 \<notin> set codes"
    and decodes: "CopyAndDecode decode (Body resp1) h1 = (b, Inr e, h2)"
    and payload: "ServiceError e = Some se"
  shows "\<exists>e' resp' h'.
           WithErrorUnlessStatusCode decode codes r resp h = (Some (PtrRequestError e'), resp', h') \<and>
           ServiceError e' = Some se \<and>
           RequestID e' = Header_Get (Header resp1) HeaderRequestID \<and>
           ErrStatusCode (DetailedError e') = StatusCode resp1"
  using payload
  by (simp add: WithErrorUnlessStatusCode_translate [where r = r, OF inner outside decodes]
      ExtractRequestID_eq set_StatusCode_def)

theorem WithErrorUnlessStatusCode_service_error_witness:
  "\<exists>e' resp' h'.
     WithErrorUnlessStatusCode sample_decode [200] base_responder conflict [Conn sample_body False]
       = (Some (PtrRequestError e'), resp', h') \<and>
     ServiceError e' = Some \<lparr>Code = ''Conflict'', Message = ''busy''\<rparr> \<and>
     RequestID e' = ''req-1'' \<and>
     ErrStatusCode (DetailedError e') = 409"
  using WithErrorUnlessStatusCode_service_error
    [of base_responder conflict "[Conn sample_body False]" conflict "[Conn sample_body False]"
        "[200]" sample_decode sample_body sample_error "[Conn [] False]"
        "\<lparr>Code = ''Conflict'', Message = ''busy''\<rparr>"]
  by (simp add: base_responder_def conflict_def sample_CopyAndDecode sample_error_def
      Header_Get_def canonical_HeaderRequestID)







text \<open>
  Claim C8. When the inner responder returns no error and the status code is among the
  codes passed, the responder returns no error, and the response and the store are
  exactly as the inner responder left them: the body is neither read, closed nor
  replaced.
\<close>

theorem WithErrorUnlessStatusCode_whitelisted:
  assumes inner: "r resp h = (None, resp1, h1)"
    and inside: "StatusCode resp1 \<in> set codes"
  shows "WithErrorUnlessStatusCode decode codes r resp h = (None, resp1, h1)"
  using inner inside by (simp add: WithErrorUnlessStatusCode_skip)

theorem WithErrorUnlessStatusCode_whitelisted_witness:
  "WithErrorUnlessStatusCode sample_decode [200, 409] base_responder conflict
     [Conn sample_body False] = (None, conflict, [Conn sample_body False])"
  using WithErrorUnlessStatusCode_whitelisted
    [of base_responder conflict "[Conn sample_body False]" conflict "[Conn sample_body False]"
        "[200, 409]" sample_decode]
  by (simp add: base_responder_def conflict_def)

subsection \<open>Calling \<open>Error\<close> on a request error\<close>

text \<open>
  Claim C10, as amended. \<open>Error\<close> dereferences the service error whatever it is: it returns
  a message exactly when the service error is not nil, and dereferences nil otherwise. A
  \<^verbatim>\<open>*RequestError\<close> returned by the error-translating responder either is the error its
  inner responder returned, passed on as it is, or has a service error: the ones the
  responder builds itself always have one. \<open>NewErrorWithError\<close> returns the \<open>RequestError\<close>
  behind the original error when that is a \<^verbatim>\<open>*RequestError\<close>; for any other original error
  it builds one whose service error is nil, on which \<open>Error\<close> dereferences nil.
\<close>

theorem Error_needs_ServiceError:
  "((\<exists>m. Error e = Inr m) \<longleftrightarrow> ServiceError e \<noteq> None) \<and>
   (ServiceError e = None \<longrightarrow> Error e = Inl NilPointerDereference) \<and>
   (WithErrorUnlessStatusCode decode codes r resp h = (Some (PtrRequestError e'), resp', h') \<longrightarrow>
      fst (r resp h) = Some (PtrRequestError e') \<or> ServiceError e' \<noteq> None) \<and>
   ((\<forall>v. original \<noteq> Some (PtrRequestError v)) \<longrightarrow>
      ServiceError (NewErrorWithError u original packageType method rsp message args) = None \<and>
      Error (NewErrorWithError u original packageType method rsp message args)
        = Inl NilPointerDereference) \<and>
   NewErrorWithError u (Some (PtrRequestError v)) packageType method rsp message args = v"
proof -
  have a: "(\<exists>m. Error x = Inr m) \<longleftrightarrow> ServiceError x \<noteq> None" for x
    by (auto simp: Error_def split: option.splits)
  have b: "ServiceError x = None \<Longrightarrow> Error x = Inl NilPointerDereference" for x
    by (simp add: Error_def)
  have c: "ServiceError (NewErrorWithError u original packageType method rsp message args) = None"
    if "\<forall>v. original \<noteq> Some (PtrRequestError v)"
    using that by (auto simp: NewErrorWithError_def split: option.splits error.splits)
  have d: "NewErrorWithError u (Some (PtrRequestError v)) packageType method rsp message args = v"
    by (simp add: NewErrorWithError_def)
  show ?thesis
    using a b c d WithErrorUnlessStatusCode_error_cases [of decode codes r resp h e' resp' h']
    by blast
qed

theorem Error_needs_ServiceError_witness:
  "Error (NewErrorWithError 0 None ''compute'' ''Create'' (Some conflict) ''Failure'' [])
     = Inl NilPointerDereference \<and>
   WithErrorUnlessStatusCode sample_decode [200] base_responder conflict [Conn sample_body False]
     = (Some (PtrRequestError
          (RequestError_lit (DetailedError_lit None [] [] 409 (Plain []))
             (Some \<lparr>Code = ''Conflict'', Message = ''busy''\<rparr>) ''req-1'')),
        conflict\<lparr>Body := 1\<rparr>, [Conn [] True, NopCloser sample_body]) \<and>
   ServiceError (RequestError_lit (DetailedError_lit None [] [] 409 (Plain []))
             (Some \<lparr>Code = ''Conflict'', Message = ''busy''\<rparr>) ''req-1'') \<noteq> None"
proof -
  have inner: "base_responder conflict [Conn sample_body False]
      = (None, conflict, [Conn sample_body False])"
    by (simp add: base_responder_def)
  have outside: "StatusCode conflict \<notin> set [200]"
    by (simp add: conflict_def)
  have cd: "CopyAndDecode sample_decode (Body conflict) [Conn sample_body False]
      = (sample_body, Inr sample_error, [Conn [] False])"
    by (simp add: conflict_def sample_CopyAndDecode)
  have run: "WithErrorUnlessStatusCode sample_decode [200] base_responder conflict
      [Conn sample_body False]
     = (Some (PtrRequestError
          (RequestError_lit (DetailedError_lit None [] [] 409 (Plain []))
             (Some \<lparr>Code = ''Conflict'', Message = ''busy''\<rparr>) ''req-1'')),
        conflict\<lparr>Body := 1\<rparr>, [Conn [] True, NopCloser sample_body])"
    by (simp add: WithErrorUnlessStatusCode_translate [where r = base_responder, OF inner outside cd]
        sample_error_def set_StatusCode_def ExtractRequestID_eq Header_Get_def
        canonical_HeaderRequestID Close_def)
       (simp add: conflict_def)
  show ?thesis
    using run
      Error_needs_ServiceError
        [of "NewErrorWithError 0 None ''compute'' ''Create'' (Some conflict) ''Failure'' []"
            sample_decode "[200]" base_responder conflict "[Conn sample_body False]"
            "RequestError_lit (DetailedError_lit None [] [] 409 (Plain []))
               (Some \<lparr>Code = ''Conflict'', Message = ''busy''\<rparr>) ''req-1''"
            "conflict\<lparr>Body := 1\<rparr>" "[Conn [] True, NopCloser sample_body]"
            None 0 "''compute''" "''Create''" "Some conflict" "''Failure''" "[]"]
    by (simp add: base_responder_def)
qed

text \<open>
  Not every \<^verbatim>\<open>*RequestError\<close> the responder returns has a service error: when the inner
  responder fails with one that has none, the responder returns that very error, and
  \<open>Error\<close> on it dereferences nil.
\<close>

theorem Error_needs_ServiceError_counterexample:
  "WithErrorUnlessStatusCode sample_decode [200] failing_responder conflict
     [Conn sample_body False]
     = (Some (PtrRequestError zero_RequestError), conflict, [Conn sample_body False]) \<and>
   ServiceError zero_RequestError = None \<and>
   Error zero_RequestError = Inl NilPointerDereference"
  by (simp add: WithErrorUnlessStatusCode_def failing_responder_def zero_RequestError_def
      Error_def)

subsection \<open>The client request ID\<close>

lemma canonical_HeaderClientID: "CanonicalHeaderKey HeaderClientID = ''X-Ms-Client-Request-Id''"
  by code_simp

lemma canonical_twice_HeaderClientID:
  "CanonicalHeaderKey ''X-Ms-Client-Request-Id'' = ''X-Ms-Client-Request-Id''"
  by code_simp

text \<open>
  Claim C9. The preparer made of \<open>WithClientID uuid\<close> alone (for the claim, \<open>uuid\<close> is
  \<^verbatim>\<open>"ABC"\<close>) returns the request with the header \<^verbatim>\<open>x-ms-client-request-id\<close>, stored under
  its canonical key, set to the one value \<open>uuid\<close>, and no error; every other header and
  every other field of the request is as it was. Wrapped around any preparer that
  returns no error, the decorator does the same to the request that preparer returns.
\<close>

theorem WithClientID_sets_one_header:
  "CreatePreparer [WithClientID uuid] r =
     (r\<lparr>ReqHeader := (ReqHeader r)(''X-Ms-Client-Request-Id'' \<mapsto> [uuid])\<rparr>, None) \<and>
   Header_Get (ReqHeader (fst (CreatePreparer [WithClientID uuid] r))) HeaderClientID = uuid \<and>
   (\<forall>k. k \<noteq> ''X-Ms-Client-Request-Id'' \<longrightarrow>
      ReqHeader (fst (CreatePreparer [WithClientID uuid] r)) k = ReqHeader r k) \<and>
   (p r = (r1, None) \<longrightarrow>
      WithClientID uuid p r =
        (r1\<lparr>ReqHeader := (ReqHeader r1)(''X-Ms-Client-Request-Id'' \<mapsto> [uuid])\<rparr>, None))"
  by (simp add: CreatePreparer_def WithClientID_def WithHeader_def Header_Set_def Header_Get_def
      canonical_HeaderClientID canonical_twice_HeaderClientID)

theorem WithClientID_sets_one_header_witness:
  "CreatePreparer [WithClientID ''ABC'']
     \<lparr>Method = ''PUT'', URL = Some ''https://management.azure.com/'',
      ReqHeader = [''Accept'' \<mapsto> [''application/json'']], Cancel = None\<rparr> =
     (\<lparr>Method = ''PUT'', URL = Some ''https://management.azure.com/'',
       ReqHeader = [''Accept'' \<mapsto> [''application/json''],
                    ''X-Ms-Client-Request-Id'' \<mapsto> [''ABC'']],
       Cancel = None\<rparr>, None) \<and>
   ReqHeader (fst (CreatePreparer [WithClientID ''ABC'']
     \<lparr>Method = ''PUT'', URL = Some ''https://management.azure.com/'',
      ReqHeader = [''Accept'' \<mapsto> [''application/json'']], Cancel = None\<rparr>)) ''Accept''
     = Some [''application/json'']"
  using WithClientID_sets_one_header
    [of "''ABC''" "\<lparr>Method = ''PUT'', URL = Some ''https://management.azure.com/'',
      ReqHeader = [''Accept'' \<mapsto> [''application/json'']], Cancel = None\<rparr>"
      "\<lambda>r. (r, None)"
      "\<lparr>Method = ''PUT'', URL = Some ''https://management.azure.com/'',
      ReqHeader = [''Accept'' \<mapsto> [''application/json'']], Cancel = None\<rparr>"]
  by simp

subsection \<open>The poll request\<close>

text \<open>
  Claim C5. When the \<^verbatim>\<open>Azure-AsyncOperation\<close> header is absent or empty (\<open>GetAsyncOperation\<close>
  returns the empty string), \<open>NewAsyncPollingRequest\<close> returns a nil request and the
  missing-header error, and the store is untouched: the body is not closed. When the
  header is not empty and preparing the request succeeds, it returns that request, whose
  method is GET and whose URL is the value of the header, with a nil error, and \<^verbatim>\<open>Close\<close>
  has been called on the body of the response after the client's inspector ran.
\<close>

theorem NewAsyncPollingRequest_body:
  "(GetAsyncOperation resp = [] \<longleftrightarrow>
      (\<forall>v vs. Header resp ''Azure-Asyncoperation'' = Some (v # vs) \<longrightarrow> v = [])) \<and>
   (GetAsyncOperation resp = [] \<longrightarrow>
      NewAsyncPollingRequest url_error u resp c h =
        ((None,
          Some (ValDetailedError
            (DetailedError_lit None ''azure'' ''NewAsyncPollingRequest'' (StatusCode resp)
               (Sprintf ''Azure-AsyncOperation header missing from response that requires polling''
                  [])))),
         h)) \<and>
   (GetAsyncOperation resp \<noteq> [] \<and>
    Prepare zero_request [AsGet, WithBaseURL url_error (GetAsyncOperation resp)] = (req, None) \<longrightarrow>
      NewAsyncPollingRequest url_error u resp c h =
        ((Some req, None), Close (Body resp) (snd (ResponseInspector c resp h))) \<and>
      Method req = ''GET'' \<and> URL req = Some (GetAsyncOperation resp))"
proof -
  have "GetAsyncOperation resp = [] \<longleftrightarrow>
      (\<forall>v vs. Header resp ''Azure-Asyncoperation'' = Some (v # vs) \<longrightarrow> v = [])"
    by (auto simp: GetAsyncOperation_eq split: option.splits list.splits)
  moreover have "NewAsyncPollingRequest url_error u resp c h =
        ((None,
          Some (ValDetailedError
            (DetailedError_lit None ''azure'' ''NewAsyncPollingRequest'' (StatusCode resp)
               (Sprintf ''Azure-AsyncOperation header missing from response that requires polling''
                  [])))),
         h)"
    if "GetAsyncOperation resp = []"
    using that
    by (simp add: NewAsyncPollingRequest_def NewErrorWithResponse_def
        autorest_NewErrorWithError_def)
  moreover have "NewAsyncPollingRequest url_error u resp c h =
        ((Some req, None), Close (Body resp) (snd (ResponseInspector c resp h))) \<and>
      Method req = ''GET'' \<and> URL req = Some (GetAsyncOperation resp)"
    if "GetAsyncOperation resp \<noteq> []"
      and "Prepare zero_request [AsGet, WithBaseURL url_error (GetAsyncOperation resp)] = (req, None)"
    using that
    by (auto simp: NewAsyncPollingRequest_def Prepare_def CreatePreparer_def AsGet_def
        WithBaseURL_def Respond_def ByInspecting_def ByClosing_def zero_request_def Let_def
        split: option.splits prod.splits)
  ultimately show ?thesis by blast
qed

theorem NewAsyncPollingRequest_body_witness:
  "NewAsyncPollingRequest (\<lambda>u. None) 0 terminal \<lparr>ResponseInspector = \<lambda>resp h. (None, h)\<rparr>
     [Conn ''accepted'' False, Conn ''done'' False] =
     ((None,
       Some (ValDetailedError
         (DetailedError_lit None ''azure'' ''NewAsyncPollingRequest'' 200
            (Sprintf ''Azure-AsyncOperation header missing from response that requires polling''
               [])))),
      [Conn ''accepted'' False, Conn ''done'' False]) \<and>
   NewAsyncPollingRequest (\<lambda>u. None) 0 in_progress \<lparr>ResponseInspector = \<lambda>resp h. (None, h)\<rparr>
     [Conn ''accepted'' False, Conn ''done'' False] =
     ((Some \<lparr>Method = ''GET'', URL = Some ''https://poll'', ReqHeader = Map.empty, Cancel = None\<rparr>,
       None),
      [Conn [] True, Conn ''done'' False])"
proof -
  have no: "GetAsyncOperation terminal = []"
    by (simp add: GetAsyncOperation_eq terminal_def)
  have loc: "GetAsyncOperation in_progress = ''https://poll''"
    by (simp add: GetAsyncOperation_eq in_progress_def)
  have prep: "Prepare zero_request [AsGet, WithBaseURL (\<lambda>u. None) ''https://poll''] =
     (\<lparr>Method = ''GET'', URL = Some ''https://poll'', ReqHeader = Map.empty, Cancel = None\<rparr>, None)"
    by (simp add: Prepare_def CreatePreparer_def AsGet_def WithBaseURL_def zero_request_def)
  show ?thesis
    using NewAsyncPollingRequest_body
        [of terminal "\<lambda>u. None" 0 "\<lparr>ResponseInspector = \<lambda>resp h. (None, h)\<rparr>"
            "[Conn ''accepted'' False, Conn ''done'' False]"]
      NewAsyncPollingRequest_body
        [of in_progress "\<lambda>u. None" 0 "\<lparr>ResponseInspector = \<lambda>resp h. (None, h)\<rparr>"
            "[Conn ''accepted'' False, Conn ''done'' False]"
            "\<lparr>Method = ''GET'', URL = Some ''https://poll'', ReqHeader = Map.empty,
              Cancel = None\<rparr>"]
    by (simp add: no loc prep Close_def) (simp add: terminal_def in_progress_def)
qed

end
